theory Spec2Isabelle
  imports Main "HOL-Library.Word"
begin

section \<open>Data model\<close>

text \<open>
  The two commands of package \<open>cmd\<close> modelled here are \<open>transaction cancel\<close>
  (\<open>cmd/transactioncancel.go\<close>) and \<open>transaction info\<close> (the second source file).
  Go strings are byte sequences, so \<open>len\<close> of a string is the \<open>length\<close> of a
  \<open>string\<close>; a Go \<open>error\<close> value is represented by its message; \<open>*big.Int\<close> values are
  unbounded and modelled as \<open>int\<close>.
\<close>

type_synonym byte = "8 word"
type_synonym bytes = "byte list"
type_synonym address = bytes
type_synonym hash = bytes
type_synonym go_error = string

text \<open>
  \<open>types.Transaction\<close>, through the accessors the commands call: \<open>Nonce()\<close> (a
  \<open>uint64\<close>), \<open>To()\<close> (\<open>nil\<close> for a contract creation), \<open>Value()\<close>, \<open>Gas()\<close>,
  \<open>GasPrice()\<close>, \<open>Data()\<close>, and the signature components, absent on an unsigned
  transaction.
\<close>

record transaction =
  tx_nonce :: "64 word"
  tx_to :: "address option"
  tx_value :: int
  tx_gas :: int
  tx_gasPrice :: int
  tx_data :: bytes
  tx_sig :: "bytes option"

text \<open>
  A Go byte slice: the backing array from the slice's first element up to its capacity,
  and the slice's length. \<open>cap s\<close> is the length of the backing part.
\<close>

record byte_slice =
  backing :: bytes
  slice_len :: nat

record log_entry =
  log_Address :: address
  log_Topics :: "hash list"
  log_Data :: byte_slice

record receipt =
  rc_Status :: "64 word"
  rc_GasUsed :: int
  rc_ContractAddress :: address
  rc_Logs :: "log_entry list"

text \<open>
  Package-level variables and flag values the two \<open>Run\<close> functions read.
  \<open>gasprice_flag\<close> is \<open>viper.GetString("gasprice")\<close>; \<open>gasPrice\<close> and \<open>nonce\<close> are the
  package variables of those names (\<open>nonce\<close> is an \<open>int64\<close>, kept as its integer value).
\<close>

record globals =
  transactionStr :: string
  quiet :: bool
  verbose :: bool
  gasprice_flag :: string
  gasPrice :: int
  nonce :: int
  chainID :: int
  transactionCancelAmount :: string
  transactionCancelToAddress :: string
  transactionInfoRaw :: bool
  transactionInfoJson :: bool
  transactionInfoSignatures :: string

text \<open>
  The external collaborators: the chain RPC client, sender recovery, the signer, reverse
  name resolution, and the library functions for hex, RLP, JSON and formatting. Each is a
  function of its arguments; a call that can fail returns \<open>Inl\<close> of the error.
  \<open>TransactionReceipt\<close> returns \<open>None\<close> for the \<open>nil\<close> receipt (its error is never
  inspected by the caller).
\<close>

record collaborators =
  HexToHash :: "string \<Rightarrow> hash"
  TransactionByHash :: "hash \<Rightarrow> go_error + (transaction \<times> bool)"
  TransactionReceipt :: "hash \<Rightarrow> receipt option"
  SendTransaction :: "transaction \<Rightarrow> go_error option"
  txFrom :: "transaction \<Rightarrow> go_error + address"
  sign_with :: "address \<Rightarrow> transaction \<Rightarrow> go_error + bytes"
  ReverseResolve :: "address \<Rightarrow> go_error + string"
  hex_DecodeString :: "string \<Rightarrow> go_error + bytes"
  DecodeRLP :: "bytes \<Rightarrow> go_error + transaction"
  EncodeRLP :: "transaction \<Rightarrow> bytes"
  MarshalJSON :: "transaction \<Rightarrow> go_error + string"
  tx_Hash :: "transaction \<Rightarrow> hash"
  address_Hex :: "address \<Rightarrow> string"
  hash_Hex :: "hash \<Rightarrow> string"
  WeiToString :: "int \<Rightarrow> bool \<Rightarrow> string"
  DataToString :: "string list \<Rightarrow> bytes \<Rightarrow> string"

section \<open>Effects\<close>

text \<open>
  A run of a command is the sequence of its observable events, in order, and the way it
  ends: it returns from \<open>Run\<close> (process exit code 0), calls \<open>os.Exit\<close>, or panics.
\<close>

datatype event =
    Stdout string
  | Stderr string
  | LogInfo "(string \<times> string) list" string
  | RpcTransactionByHash hash
  | RpcTransactionReceipt hash
  | RpcSendTransaction transaction
  | RecoverSender transaction
  | SignRequest address transaction
  | ResolveName address
  | HexDecode string
  | RlpDecode bytes

datatype outcome = Returned | Exit nat | Panic string

type_synonym run = "event list \<times> outcome"

definition emit :: "event list \<Rightarrow> run \<Rightarrow> run" where
  "emit es r = (es @ fst r, snd r)"

text \<open>Sequencing: the second part runs only when the first one completed.\<close>

definition and_then :: "run \<Rightarrow> run \<Rightarrow> run" where
  "and_then r k = (case snd r of Returned \<Rightarrow> (fst r @ fst k, snd k) | _ \<Rightarrow> r)"

definition exit_code :: "outcome \<Rightarrow> nat" where
  "exit_code out = (case out of Returned \<Rightarrow> 0 | Exit n \<Rightarrow> n | Panic _ \<Rightarrow> 2)"


fun is_signing_or_submission :: "event \<Rightarrow> bool" where
  "is_signing_or_submission (RecoverSender _) = True"
| "is_signing_or_submission (SignRequest _ _) = True"
| "is_signing_or_submission (RpcSendTransaction _) = True"
| "is_signing_or_submission _ = False"

fun sign_requests :: "event list \<Rightarrow> (address \<times> transaction) list" where
  "sign_requests [] = []"
| "sign_requests (SignRequest a u # es) = (a, u) # sign_requests es"
| "sign_requests (_ # es) = sign_requests es"

fun stdout_lines :: "event list \<Rightarrow> string list" where
  "stdout_lines [] = []"
| "stdout_lines (Stdout s # es) = s # stdout_lines es"
| "stdout_lines (_ # es) = stdout_lines es"

abbreviation tab :: char where "tab \<equiv> CHR 0x09"
abbreviation newline :: char where "newline \<equiv> CHR 0x0A"

section \<open>Helpers of the command-line layer\<close>

text \<open>
  Modelled from the spec: \<open>cli.ErrCheck\<close> and \<open>cli.Assert\<close>, whose source is not among
  the files verified here. Section 7 of the specification: every error is terminal; in
  normal mode the error is written to diagnostic output with its context and the process
  exits non-zero; in quiet mode diagnostic text is suppressed entirely and only the exit
  code (1 for any failure, section 6) communicates the outcome.
  \<open>ErrCheck err quiet msg\<close> is the call with a non-\<open>nil\<close> error; with a \<open>nil\<close> error the
  call returns and the caller goes on, which is the \<open>Inr\<close> branch at each call site.
  \<open>Assert cond quiet msg k\<close> goes on with \<open>k\<close> when the condition holds.
\<close>

definition ErrCheck :: "go_error \<Rightarrow> bool \<Rightarrow> string \<Rightarrow> run" where
  "ErrCheck err q msg = ((if q then [] else [Stderr (msg @ '': '' @ err @ [newline])]), Exit 1)"

definition Assert :: "bool \<Rightarrow> bool \<Rightarrow> string \<Rightarrow> run \<Rightarrow> run" where
  "Assert cond q msg k =
     (if cond then k else ((if q then [] else [Stderr (msg @ [newline])]), Exit 1))"

section \<open>The cancel command\<close>

text \<open>
  Modelled from the spec: \<open>createSignedTransaction\<close>, a function of package \<open>cmd\<close> whose
  source is not among the files verified here. Section 4.4, steps 3 and 4: the unsigned
  transaction takes the nonce and the gas price from the package variables, the given
  recipient, value 0 and an empty payload when none is given, and the gas limit of a base
  transfer (21000) when none is given; it is handed to the signer keyed by the sender
  address, whose failure is propagated. Signing adds the signature components and leaves
  the other fields as they are.
\<close>

definition createSignedTransaction ::
  "collaborators \<Rightarrow> globals \<Rightarrow> address \<Rightarrow> address option \<Rightarrow> int option \<Rightarrow> int option
     \<Rightarrow> bytes option \<Rightarrow> event list \<times> (go_error + transaction)" where
  "createSignedTransaction c g fromAddress toAddress amount gasLimit data =
     (let unsigned = \<lparr> tx_nonce = word_of_int (nonce g),
                       tx_to = toAddress,
                       tx_value = (case amount of None \<Rightarrow> 0 | Some a \<Rightarrow> a),
                       tx_gas = (case gasLimit of None \<Rightarrow> 21000 | Some l \<Rightarrow> l),
                       tx_gasPrice = gasPrice g,
                       tx_data = (case data of None \<Rightarrow> [] | Some d \<Rightarrow> d),
                       tx_sig = None \<rparr>
      in ([SignRequest fromAddress unsigned],
          (case sign_with c fromAddress unsigned of
             Inl err \<Rightarrow> Inl err
           | Inr sg \<Rightarrow> Inr (unsigned\<lparr> tx_sig := Some sg \<rparr>))))"

text \<open>
  Lines 51 to 54 of \<open>transactioncancel.go\<close>: the package variable \<open>gasPrice\<close> is
  overwritten only when no gas price was given. \<open>big.Int.Div\<close> is Euclidean division,
  which for the divisor 9 is \<open>div\<close> on \<open>int\<close>.
\<close>

definition set_gasPrice :: "globals \<Rightarrow> transaction \<Rightarrow> globals" where
  "set_gasPrice g tx =
     (if gasprice_flag g = []
      then g\<lparr> gasPrice := tx_gasPrice tx + tx_gasPrice tx div 9 \<rparr>
      else g)"

text \<open>Decimal rendering, as \<open>%v\<close>, \<open>%d\<close> and \<open>big.Int.String\<close> print integers.\<close>

function decimal :: "nat \<Rightarrow> string" where
  "decimal n = (if n < 10 then [char_of (48 + n)] else decimal (n div 10) @ [char_of (48 + n mod 10)])"
  by pat_completeness auto
termination
  by (relation "measure (\<lambda>n. n)") auto

definition decimal_int :: "int \<Rightarrow> string" where
  "decimal_int i = (if i < 0 then CHR ''-'' # decimal (nat (- i)) else decimal (nat i))"

text \<open>Lines 67 to 75: the fields of the structured success record.\<close>

definition success_fields ::
  "collaborators \<Rightarrow> globals \<Rightarrow> address \<Rightarrow> transaction \<Rightarrow> (string \<times> string) list" where
  "success_fields c g fromAddress signedTx =
     [(''group'', ''transaction''),
      (''command'', ''cancel''),
      (''address'', address_Hex c fromAddress),
      (''networkid'', decimal_int (chainID g)),
      (''gas'', decimal_int (tx_gas signedTx)),
      (''gasprice'', decimal_int (tx_gasPrice signedTx)),
      (''transactionid'', hash_Hex c (tx_Hash c signedTx))]"

text \<open>
  \<open>transactionCancelCmd.Run\<close>, lines 45 to 81. \<open>int64(tx.Nonce())\<close> reads the 64 bits
  of the nonce as a signed value, which is \<open>sint\<close>.
\<close>

definition transactionCancel_Run :: "collaborators \<Rightarrow> globals \<Rightarrow> run" where
  "transactionCancel_Run c g =
     (let txHash = HexToHash c (transactionStr g) in
      emit [RpcTransactionByHash txHash]
       (case TransactionByHash c txHash of
          Inl err \<Rightarrow> ErrCheck err (quiet g) ''Failed to obtain transaction''
        | Inr (tx, pending) \<Rightarrow>
            Assert pending (quiet g) ''Transaction has already been mined''
             (let g1 = set_gasPrice g tx in
              emit [RecoverSender tx]
               (case txFrom c tx of
                  Inl err \<Rightarrow> ErrCheck err (quiet g) ''Failed to obtain from address''
                | Inr fromAddress \<Rightarrow>
                    (let g2 = g1\<lparr> nonce := sint (tx_nonce tx) \<rparr>;
                         created = createSignedTransaction c g2 fromAddress (Some fromAddress)
                                     None None None
                     in emit (fst created)
                         (case snd created of
                            Inl err \<Rightarrow> ErrCheck err (quiet g) ''Failed to create transaction''
                          | Inr signedTx \<Rightarrow>
                              emit [RpcSendTransaction signedTx]
                               (case SendTransaction c signedTx of
                                  Some err \<Rightarrow> ErrCheck err (quiet g) ''Failed to send transaction''
                                | None \<Rightarrow>
                                    emit [LogInfo (success_fields c g2 fromAddress signedTx) ''success'']
                                     (if quiet g then ([], Exit 0)
                                      else ([Stdout (hash_Hex c (tx_Hash c signedTx) @ [newline])],
                                            Returned)))))))))"

section \<open>The info command\<close>

text \<open>\<open>strings.TrimPrefix\<close> and \<open>strings.Split\<close> with a one-byte separator.\<close>

definition TrimPrefix :: "string \<Rightarrow> string \<Rightarrow> string" where
  "TrimPrefix s p = (if take (length p) s = p then drop (length p) s else s)"

fun Split :: "string \<Rightarrow> char \<Rightarrow> string list" where
  "Split [] sep = [[]]"
| "Split (x # xs) sep =
     (if x = sep then [] # Split xs sep
      else (case Split xs sep of [] \<Rightarrow> [[x]] | w # ws \<Rightarrow> (x # w) # ws))"

text \<open>\<open>hex.EncodeToString\<close>: two lower-case hexadecimal digits for each byte.\<close>

definition hex_digit :: "nat \<Rightarrow> char" where
  "hex_digit n = (if n < 10 then char_of (48 + n) else char_of (87 + n))"

definition EncodeToString :: "bytes \<Rightarrow> string" where
  "EncodeToString bs = concat (map (\<lambda>b. [hex_digit (unat b div 16), hex_digit (unat b mod 16)]) bs)"

text \<open>
  The slice expression \<open>s[lo:hi]\<close> on a byte slice: Go requires
  \<open>0 \<le> lo \<le> hi \<le> cap s\<close> and panics otherwise; the result holds the \<open>hi - lo\<close>
  bytes of the backing array from position \<open>lo\<close>.
\<close>

definition slice_expr :: "byte_slice \<Rightarrow> nat \<Rightarrow> nat \<Rightarrow> string + bytes" where
  "slice_expr s lo hi =
     (if lo \<le> hi \<and> hi \<le> length (backing s)
      then Inr (take (hi - lo) (drop lo (backing s)))
      else Inl ''slice bounds out of range'')"

text \<open>
  Lines 52 to 59: the branch for a raw transaction. \<open>k\<close> is the rest of \<open>Run\<close>, which
  receives the hash, the transaction and the pending flag; a decoded raw transaction
  leaves \<open>pending\<close> at its zero value.
\<close>

definition locate_raw ::
  "collaborators \<Rightarrow> globals \<Rightarrow> (hash \<Rightarrow> transaction \<Rightarrow> bool \<Rightarrow> run) \<Rightarrow> run" where
  "locate_raw c g k =
     (let hexstr = TrimPrefix (transactionStr g) ''0x'' in
      emit [HexDecode hexstr]
       (case hex_DecodeString c hexstr of
          Inl err \<Rightarrow> ErrCheck err (quiet g) ''Failed to decode data''
        | Inr data \<Rightarrow>
            emit [RlpDecode data]
             (case DecodeRLP c data of
                Inl err \<Rightarrow> ErrCheck err (quiet g) ''Failed to decode raw transaction''
              | Inr tx \<Rightarrow> k (tx_Hash c tx) tx False)))"

text \<open>Lines 61 to 67: the branch for a transaction identifier.\<close>

definition locate_id ::
  "collaborators \<Rightarrow> globals \<Rightarrow> (hash \<Rightarrow> transaction \<Rightarrow> bool \<Rightarrow> run) \<Rightarrow> run" where
  "locate_id c g k =
     (let txHash = HexToHash c (transactionStr g) in
      emit [RpcTransactionByHash txHash]
       (case TransactionByHash c txHash of
          Inl err \<Rightarrow> ErrCheck err (quiet g)
                       (''Failed to obtain transaction '' @ hash_Hex c txHash)
        | Inr (tx, pending) \<Rightarrow> k txHash tx pending))"

text \<open>Lines 47 to 68: the locator.\<close>

definition locate ::
  "collaborators \<Rightarrow> globals \<Rightarrow> (hash \<Rightarrow> transaction \<Rightarrow> bool \<Rightarrow> run) \<Rightarrow> run" where
  "locate c g k =
     Assert (transactionStr g \<noteq> []) (quiet g) ''--transaction is required''
      (if length (transactionStr g) > 66 then locate_raw c g k else locate_id c g k)"


text \<open>Lines 88 to 93: the signatures added to the function map before rendering.\<close>

definition added_signatures :: "globals \<Rightarrow> string list" where
  "added_signatures g =
     (if transactionInfoSignatures g \<noteq> [] then Split (transactionInfoSignatures g) (CHR '';'')
      else [])"

text \<open>
  Lines 95 to 118: the Type line, and for a transaction that is not pending the receipt
  fetch and the Result line. The second component is the variable \<open>receipt\<close>.
\<close>

definition type_and_result ::
  "collaborators \<Rightarrow> hash \<Rightarrow> transaction \<Rightarrow> bool \<Rightarrow> event list \<times> receipt option" where
  "type_and_result c txHash tx pending =
     (if pending
      then ([Stdout (if tx_to tx = None
                     then ''Type:'' @ [tab, tab, tab] @ ''Pending contract creation'' @ [newline]
                     else ''Type:'' @ [tab, tab, tab] @ ''Pending transaction'' @ [newline])],
            None)
      else ([Stdout (if tx_to tx = None
                     then ''Type:'' @ [tab, tab, tab] @ ''Mined contract creation'' @ [newline]
                     else ''Type:'' @ [tab, tab, tab] @ ''Mined transaction'' @ [newline]),
             RpcTransactionReceipt txHash]
            @ (case TransactionReceipt c txHash of
                 None \<Rightarrow> []
               | Some rc \<Rightarrow>
                   [Stdout (if rc_Status rc = 0
                            then ''Result:'' @ [tab, tab, tab] @ ''Failed'' @ [newline]
                            else ''Result:'' @ [tab, tab, tab] @ ''Succeeded'' @ [newline])]),
            TransactionReceipt c txHash))"

text \<open>An address line with its alias when reverse resolution succeeds (lines 122 to 127).\<close>

definition address_line :: "collaborators \<Rightarrow> string \<Rightarrow> address \<Rightarrow> event list" where
  "address_line c label a =
     [ResolveName a,
      Stdout (case ReverseResolve c a of
                Inr alias \<Rightarrow> label @ alias @ '' ('' @ address_Hex c a @ '')'' @ [newline]
              | Inl err \<Rightarrow> label @ address_Hex c a @ [newline])]"

text \<open>Lines 120 to 128.\<close>

definition from_lines :: "collaborators \<Rightarrow> transaction \<Rightarrow> event list" where
  "from_lines c tx =
     RecoverSender tx #
     (case txFrom c tx of
        Inr fromAddress \<Rightarrow> address_line c (''From:'' @ [tab, tab, tab]) fromAddress
      | Inl err \<Rightarrow> [])"

text \<open>Lines 130 to 148.\<close>

definition to_lines :: "collaborators \<Rightarrow> transaction \<Rightarrow> receipt option \<Rightarrow> event list" where
  "to_lines c tx rcpt =
     (case tx_to tx of
        None \<Rightarrow>
          (case rcpt of
             Some rc \<Rightarrow> address_line c (''Contract address:'' @ [tab]) (rc_ContractAddress rc)
           | None \<Rightarrow> [])
      | Some to \<Rightarrow> address_line c (''To:'' @ [tab, tab, tab]) to)"

text \<open>Lines 150 to 160.\<close>

definition field_lines ::
  "collaborators \<Rightarrow> globals \<Rightarrow> transaction \<Rightarrow> receipt option \<Rightarrow> event list" where
  "field_lines c g tx rcpt =
     [Stdout (''Nonce:'' @ [tab, tab, tab] @ decimal (unat (tx_nonce tx)) @ [newline]),
      Stdout (''Gas limit:'' @ [tab, tab] @ decimal_int (tx_gas tx) @ [newline])]
     @ (case rcpt of
          Some rc \<Rightarrow> [Stdout (''Gas used:'' @ [tab, tab] @ decimal_int (rc_GasUsed rc) @ [newline])]
        | None \<Rightarrow> [])
     @ [Stdout (''Gas price:'' @ [tab, tab] @ WeiToString c (tx_gasPrice tx) True @ [newline]),
        Stdout (''Value:'' @ [tab, tab, tab] @ WeiToString c (tx_value tx) True @ [newline])]
     @ (if length (tx_data tx) > 0
        then [Stdout (''Data:'' @ [tab, tab, tab]
                      @ DataToString c (added_signatures g) (tx_data tx) @ [newline])]
        else [])"

text \<open>Lines 167 to 172: the topics of one log, \<open>j\<close> being the index of the first.\<close>

fun topic_lines :: "collaborators \<Rightarrow> nat \<Rightarrow> hash list \<Rightarrow> event list" where
  "topic_lines c j [] = []"
| "topic_lines c j (topic # topics) =
     Stdout ([tab, tab, tab] @ decimal j @ '':'' @ [tab] @ hash_Hex c topic @ [newline])
     # topic_lines c (Suc j) topics"

text \<open>
  Lines 175 to 177: the loop over the 32-byte words of a log's data, from index \<open>j\<close>.
  Each iteration takes the slice \<open>log.Data[j*32:(j+1)*32]\<close>.
\<close>

function data_lines :: "nat \<Rightarrow> byte_slice \<Rightarrow> run" where
  "data_lines j d =
     (if j * 32 < slice_len d
      then (case slice_expr d (j * 32) ((j + 1) * 32) of
              Inl p \<Rightarrow> ([], Panic p)
            | Inr w \<Rightarrow>
                emit [Stdout ([tab, tab, tab] @ decimal j @ '':'' @ [tab] @ ''0x''
                              @ EncodeToString w @ [newline])]
                  (data_lines (j + 1) d))
      else ([], Returned))"
  by pat_completeness auto
termination
  by (relation "measure (\<lambda>(j, d). slice_len d - j * 32)") auto

text \<open>Lines 165 to 178: one log, \<open>i\<close> being its index.\<close>

definition one_log :: "collaborators \<Rightarrow> nat \<Rightarrow> log_entry \<Rightarrow> run" where
  "one_log c i lg =
     emit ([Stdout ([tab] @ decimal i @ '':'' @ [newline]),
            Stdout ([tab, tab] @ ''Address:'' @ [tab] @ address_Hex c (log_Address lg) @ [newline])]
           @ (if length (log_Topics lg) > 0
              then Stdout ([tab, tab] @ ''Topics:'' @ [newline]) # topic_lines c 0 (log_Topics lg)
              else []))
       (if slice_len (log_Data lg) > 0
        then emit [Stdout ([tab, tab] @ ''Data:'' @ [newline])] (data_lines 0 (log_Data lg))
        else ([], Returned))"

text \<open>Lines 164 to 179: the loop over the logs.\<close>

fun log_lines :: "collaborators \<Rightarrow> nat \<Rightarrow> log_entry list \<Rightarrow> run" where
  "log_lines c i [] = ([], Returned)"
| "log_lines c i (lg # lgs) = and_then (one_log c i lg) (log_lines c (Suc i) lgs)"

text \<open>
  Lines 162 to 180. The condition is \<open>verbose && len(receipt.Logs) > 0\<close>: with \<open>verbose\<close>
  set its right operand is evaluated, and reading \<open>Logs\<close> through a \<open>nil\<close> receipt is a
  nil pointer dereference.
\<close>

definition logs_section :: "collaborators \<Rightarrow> globals \<Rightarrow> receipt option \<Rightarrow> run" where
  "logs_section c g rcpt =
     (if verbose g
      then (case rcpt of
              None \<Rightarrow> ([], Panic ''invalid memory address or nil pointer dereference'')
            | Some rc \<Rightarrow>
                (if length (rc_Logs rc) > 0
                 then emit [Stdout (''Logs:'' @ [newline])] (log_lines c 0 (rc_Logs rc))
                 else ([], Returned)))
      else ([], Returned))"

text \<open>Lines 88 to 181: the text report.\<close>

definition report :: "collaborators \<Rightarrow> globals \<Rightarrow> hash \<Rightarrow> transaction \<Rightarrow> bool \<Rightarrow> run" where
  "report c g txHash tx pending =
     (let tr = type_and_result c txHash tx pending in
      emit (fst tr @ from_lines c tx @ to_lines c tx (snd tr) @ field_lines c g tx (snd tr))
        (logs_section c g (snd tr)))"

text \<open>Lines 70 to 181: what \<open>Run\<close> does with a located transaction.\<close>

definition render :: "collaborators \<Rightarrow> globals \<Rightarrow> hash \<Rightarrow> transaction \<Rightarrow> bool \<Rightarrow> run" where
  "render c g txHash tx pending =
     (if quiet g then ([], Exit 0)
      else if transactionInfoRaw g
      then ([Stdout (''0x'' @ EncodeToString (EncodeRLP c tx) @ [newline])], Exit 0)
      else if transactionInfoJson g
      then (case MarshalJSON c tx of
              Inl err \<Rightarrow> ErrCheck err (quiet g)
                           (''Failed to obtain JSON for transaction '' @ hash_Hex c txHash)
            | Inr json \<Rightarrow> ([Stdout (json @ [newline])], Exit 0))
      else report c g txHash tx pending)"

text \<open>\<open>transactionInfoCmd.Run\<close>, lines 46 to 181.\<close>

definition transactionInfo_Run :: "collaborators \<Rightarrow> globals \<Rightarrow> run" where
  "transactionInfo_Run c g = locate c g (render c g)"

section \<open>Observations on runs and concrete inputs\<close>

definition has_prefix :: "string \<Rightarrow> string \<Rightarrow> bool" where
  "has_prefix p l = (take (length p) l = p)"


text \<open>The gas prices of the transactions handed to the signer.\<close>

fun replacement_prices :: "event list \<Rightarrow> int list" where
  "replacement_prices [] = []"
| "replacement_prices (SignRequest a u # es) = tx_gasPrice u # replacement_prices es"
| "replacement_prices (_ # es) = replacement_prices es"

text \<open>The receipt the report works with: fetched only for a transaction that is not pending.\<close>

definition fetched_receipt :: "collaborators \<Rightarrow> hash \<Rightarrow> bool \<Rightarrow> receipt option" where
  "fetched_receipt c txHash pending = (if pending then None else TransactionReceipt c txHash)"

text \<open>
  A transaction with gas price \<open>p\<close>, a node that reports it with the given pending flag
  and receipt, and collaborators that all succeed except reverse resolution.
\<close>

definition demo_tx :: "int \<Rightarrow> transaction" where
  "demo_tx p = \<lparr> tx_nonce = 7, tx_to = Some [1], tx_value = 5, tx_gas = 90000,
                 tx_gasPrice = p, tx_data = [], tx_sig = Some [9] \<rparr>"

definition demo_client :: "transaction \<Rightarrow> bool \<Rightarrow> receipt option \<Rightarrow> collaborators" where
  "demo_client tx pending rcpt =
     \<lparr> HexToHash = (\<lambda>s. []),
       TransactionByHash = (\<lambda>h. Inr (tx, pending)),
       TransactionReceipt = (\<lambda>h. rcpt),
       SendTransaction = (\<lambda>t. None),
       txFrom = (\<lambda>t. Inr [2]),
       sign_with = (\<lambda>a t. Inr [3]),
       ReverseResolve = (\<lambda>a. Inl ''no resolver''),
       hex_DecodeString = (\<lambda>s. Inr []),
       DecodeRLP = (\<lambda>b. Inr tx),
       EncodeRLP = (\<lambda>t. []),
       MarshalJSON = (\<lambda>t. Inr ''{}''),
       tx_Hash = (\<lambda>t. []),
       address_Hex = (\<lambda>a. ''0x'' @ EncodeToString a),
       hash_Hex = (\<lambda>h. ''0x'' @ EncodeToString h),
       WeiToString = (\<lambda>i b. decimal_int i @ '' Wei''),
       DataToString = (\<lambda>sigs d. ''0x'' @ EncodeToString d) \<rparr>"

definition demo_globals :: "string \<Rightarrow> bool \<Rightarrow> bool \<Rightarrow> string \<Rightarrow> globals" where
  "demo_globals s q v gp =
     \<lparr> transactionStr = s, quiet = q, verbose = v, gasprice_flag = gp, gasPrice = 5000,
       nonce = - 1, chainID = 1, transactionCancelAmount = [], transactionCancelToAddress = [],
       transactionInfoRaw = False, transactionInfoJson = False,
       transactionInfoSignatures = [] \<rparr>"

text \<open>A log whose data has length and capacity 48, and a receipt that holds it.\<close>

definition demo_log :: log_entry where
  "demo_log = \<lparr> log_Address = [4], log_Topics = [],
                log_Data = \<lparr> backing = replicate 48 0, slice_len = 48 \<rparr> \<rparr>"

definition demo_receipt :: "64 word \<Rightarrow> log_entry list \<Rightarrow> receipt" where
  "demo_receipt st lgs = \<lparr> rc_Status = st, rc_GasUsed = 21000, rc_ContractAddress = [5],
                             rc_Logs = lgs \<rparr>"

declare decimal.simps [simp del]
declare data_lines.simps [simp del]

section \<open>Properties of the cancel command\<close>

text \<open>
  The run on a transaction the node reports as pending and whose sender can be
  recovered: exactly one transaction is handed to the signer, with these fields.
\<close>

lemma cancel_run_pending:
  assumes "TransactionByHash c (HexToHash c (transactionStr g)) = Inr (tx, True)"
      and "txFrom c tx = Inr sender"
  shows "sign_requests (fst (transactionCancel_Run c g)) =
           [(sender, \<lparr> tx_nonce = tx_nonce tx, tx_to = Some sender, tx_value = 0,
                       tx_gas = 21000,
                       tx_gasPrice = (if gasprice_flag g = []
                                      then tx_gasPrice tx + tx_gasPrice tx div 9
                                      else gasPrice g),
                       tx_data = [], tx_sig = None \<rparr>)]"
  using assms
  by (auto simp: transactionCancel_Run_def emit_def ErrCheck_def Assert_def
        createSignedTransaction_def Let_def set_gasPrice_def split: sum.splits option.splits)

lemma replacement_prices_sign_requests:
  "replacement_prices es = map (\<lambda>au. tx_gasPrice (snd au)) (sign_requests es)"
  by (induction es rule: sign_requests.induct) simp_all

lemma cancel_flags_irrelevant:
  "transactionCancel_Run c (g\<lparr> transactionCancelAmount := a, transactionCancelToAddress := t \<rparr>)
     = transactionCancel_Run c g"
  by (auto simp: transactionCancel_Run_def set_gasPrice_def createSignedTransaction_def
        success_fields_def Let_def split: sum.splits option.splits)


text \<open>
  Claim C3, as stated: for every positive gas price \<open>p\<close> of the transaction to cancel and
  no explicit gas price, the replacement gas price is \<open>p + p div 9\<close> and strictly greater
  than \<open>p\<close>. At \<open>p = 1\<close> the replacement gas price is 1, which is not greater than 1.
\<close>

theorem cancel_gas_price_strict_counterexample:
  "0 < tx_gasPrice (demo_tx 1)
   \<and> gasprice_flag (demo_globals ''0x12'' False False []) = []
   \<and> gasPrice (set_gasPrice (demo_globals ''0x12'' False False []) (demo_tx 1)) = 1
   \<and> replacement_prices (fst (transactionCancel_Run (demo_client (demo_tx 1) True None)
                                  (demo_globals ''0x12'' False False []))) = [1]
   \<and> \<not> tx_gasPrice (demo_tx 1) < 1"
  using cancel_run_pending [of "demo_client (demo_tx 1) True None"
          "demo_globals ''0x12'' False False []" "demo_tx 1" "[2]"]
  by (simp add: replacement_prices_sign_requests set_gasPrice_def demo_client_def demo_tx_def
        demo_globals_def)

text \<open>
  Claim C3, amended: when no explicit gas price is given, the replacement gas price is
  \<open>p + p div 9\<close>, which is at least \<open>p\<close> for every positive \<open>p\<close> and strictly greater
  than \<open>p\<close> for every \<open>p\<close> of 9 or more; when an explicit gas price is given, that value
  is used and the bump is not applied. The price of the replacement is the package
  variable \<open>gasPrice\<close> as lines 51 to 54 leave it.
\<close>

theorem cancel_gas_price:
  assumes "TransactionByHash c (HexToHash c (transactionStr g)) = Inr (tx, True)"
      and "txFrom c tx = Inr sender"
  shows "\<exists>u. sign_requests (fst (transactionCancel_Run c g)) = [(sender, u)]
           \<and> (gasprice_flag g = [] \<longrightarrow> tx_gasPrice u = tx_gasPrice tx + tx_gasPrice tx div 9)
           \<and> (gasprice_flag g = [] \<and> 0 < tx_gasPrice tx \<longrightarrow> tx_gasPrice tx \<le> tx_gasPrice u)
           \<and> (gasprice_flag g = [] \<and> 9 \<le> tx_gasPrice tx \<longrightarrow> tx_gasPrice tx < tx_gasPrice u)
           \<and> (gasprice_flag g \<noteq> [] \<longrightarrow> tx_gasPrice u = gasPrice g)
           \<and> tx_gasPrice u = gasPrice (set_gasPrice g tx)"
  using cancel_run_pending [OF assms] by (auto simp: set_gasPrice_def)

theorem cancel_gas_price_witness:
  "(\<exists>u. sign_requests (fst (transactionCancel_Run (demo_client (demo_tx 1000000000) True None)
                               (demo_globals ''0x12'' False False [])))
           = [([2], u)]
        \<and> tx_gasPrice u = 1111111111 \<and> (1000000000 :: int) < tx_gasPrice u)
   \<and> (\<exists>u. sign_requests (fst (transactionCancel_Run (demo_client (demo_tx 1000000000) True None)
                                 (demo_globals ''0x12'' False False ''5000'')))
             = [([2], u)]
          \<and> tx_gasPrice u = 5000)"
  using cancel_gas_price [of "demo_client (demo_tx 1000000000) True None"
          "demo_globals ''0x12'' False False []" "demo_tx 1000000000" "[2]"]
        cancel_gas_price [of "demo_client (demo_tx 1000000000) True None"
          "demo_globals ''0x12'' False False ''5000''" "demo_tx 1000000000" "[2]"]
  by (auto simp: demo_client_def demo_tx_def demo_globals_def)

text \<open>
  Claim C4: when the node reports the transaction as not pending, the run consists of the
  lookup and, unless quiet, the diagnostic "Transaction has already been mined"; it ends
  with exit code 1, and no sender recovery, signing or submission takes place.
\<close>

theorem cancel_mined_fails:
  assumes "TransactionByHash c (HexToHash c (transactionStr g)) = Inr (tx, False)"
  shows "transactionCancel_Run c g =
           (RpcTransactionByHash (HexToHash c (transactionStr g)) #
              (if quiet g then []
               else [Stderr (''Transaction has already been mined'' @ [newline])]),
            Exit 1)
         \<and> filter is_signing_or_submission (fst (transactionCancel_Run c g)) = []"
  using assms
  by (simp add: transactionCancel_Run_def emit_def Assert_def Let_def)

theorem cancel_mined_fails_witness:
  "transactionCancel_Run (demo_client (demo_tx 1000000000) False None)
      (demo_globals ''0x12'' False False []) =
     ([RpcTransactionByHash [], Stderr (''Transaction has already been mined'' @ [newline])],
      Exit 1)
   \<and> filter is_signing_or_submission
        (fst (transactionCancel_Run (demo_client (demo_tx 1000000000) False None)
                (demo_globals ''0x12'' False False []))) = []"
  using cancel_mined_fails [of "demo_client (demo_tx 1000000000) False None"
          "demo_globals ''0x12'' False False []" "demo_tx 1000000000"]
  by (simp add: demo_client_def demo_globals_def)

text \<open>
  Claim C5: for a pending transaction whose sender is recovered, the one replacement
  handed to the signer reuses the original nonce, has the recovered sender as recipient,
  value 0, an empty payload and gas limit 21000.
\<close>

theorem cancel_replacement_fields:
  assumes "TransactionByHash c (HexToHash c (transactionStr g)) = Inr (tx, True)"
      and "txFrom c tx = Inr sender"
  shows "\<exists>u. sign_requests (fst (transactionCancel_Run c g)) = [(sender, u)]
           \<and> tx_nonce u = tx_nonce tx \<and> tx_to u = Some sender \<and> tx_value u = 0
           \<and> tx_data u = [] \<and> tx_gas u = 21000"
  using cancel_run_pending [OF assms] by simp

theorem cancel_replacement_fields_witness:
  "\<exists>u. sign_requests (fst (transactionCancel_Run (demo_client (demo_tx 1000000000) True None)
                              (demo_globals ''0x12'' False False [])))
          = [([2], u)]
       \<and> tx_nonce u = 7 \<and> tx_to u = Some [2] \<and> tx_value u = 0
       \<and> tx_data u = [] \<and> tx_gas u = 21000"
  using cancel_replacement_fields [of "demo_client (demo_tx 1000000000) True None"
          "demo_globals ''0x12'' False False []" "demo_tx 1000000000" "[2]"]
  by (simp add: demo_client_def demo_tx_def)

text \<open>
  Claim C10: whatever values \<open>--amount\<close> and \<open>--to\<close> carry, the run is the one without
  them, and the replacement of a pending transaction is a transfer of value 0 addressed
  to the recovered sender.
\<close>

theorem cancel_ignores_amount_and_to:
  assumes "TransactionByHash c (HexToHash c (transactionStr g)) = Inr (tx, True)"
      and "txFrom c tx = Inr sender"
  shows "transactionCancel_Run c
           (g\<lparr> transactionCancelAmount := a, transactionCancelToAddress := t \<rparr>)
           = transactionCancel_Run c g
         \<and> (\<exists>u. sign_requests (fst (transactionCancel_Run c
                    (g\<lparr> transactionCancelAmount := a, transactionCancelToAddress := t \<rparr>)))
                  = [(sender, u)]
              \<and> tx_value u = 0 \<and> tx_to u = Some sender)"
  using cancel_run_pending [OF assms] by (simp add: cancel_flags_irrelevant)

theorem cancel_ignores_amount_and_to_witness:
  "transactionCancel_Run (demo_client (demo_tx 1000000000) True None)
     ((demo_globals ''0x12'' False False [])
        \<lparr> transactionCancelAmount := ''5 ether'', transactionCancelToAddress := ''0xabcd'' \<rparr>)
     = transactionCancel_Run (demo_client (demo_tx 1000000000) True None)
         (demo_globals ''0x12'' False False [])
   \<and> (\<exists>u. sign_requests (fst (transactionCancel_Run (demo_client (demo_tx 1000000000) True None)
              ((demo_globals ''0x12'' False False [])
                 \<lparr> transactionCancelAmount := ''5 ether'',
                   transactionCancelToAddress := ''0xabcd'' \<rparr>)))
            = [([2], u)]
        \<and> tx_value u = 0 \<and> tx_to u = Some [2])"
  using cancel_ignores_amount_and_to [where c = "demo_client (demo_tx 1000000000) True None"
          and g = "demo_globals ''0x12'' False False []" and tx = "demo_tx 1000000000"
          and sender = "[2]" and a = "''5 ether''" and t = "''0xabcd''"]
  by (auto simp: demo_client_def)

section \<open>Properties of the info command\<close>

lemma stdout_lines_append: "stdout_lines (a @ b) = stdout_lines a @ stdout_lines b"
  by (induction a rule: stdout_lines.induct) simp_all

lemma fst_emit: "fst (emit es r) = es @ fst r" and snd_emit: "snd (emit es r) = snd r"
  by (simp_all add: emit_def)

lemma topic_lines_tab:
  "l \<in> set (stdout_lines (topic_lines c j ts)) \<Longrightarrow> \<exists>r. l = tab # r"
  by (induction ts arbitrary: j) auto

lemma data_lines_tab:
  "l \<in> set (stdout_lines (fst (data_lines j d))) \<Longrightarrow> \<exists>r. l = tab # r"
proof (induction j d rule: data_lines.induct)
  case (1 j d)
  show ?case
  proof (cases "j * 32 < slice_len d")
    case False
    with "1.prems" show ?thesis by (simp add: data_lines.simps)
  next
    case True
    show ?thesis
    proof (cases "slice_expr d (j * 32) ((j + 1) * 32)")
      case (Inl p)
      with True "1.prems" show ?thesis by (simp add: data_lines.simps)
    next
      case (Inr w)
      with True "1.prems" "1.IH" show ?thesis
        by (auto simp: data_lines.simps [of j d] fst_emit)
    qed
  qed
qed

lemma one_log_tab:
  "l \<in> set (stdout_lines (fst (one_log c i lg))) \<Longrightarrow> \<exists>r. l = tab # r"
  by (auto simp: one_log_def fst_emit stdout_lines_append dest: topic_lines_tab data_lines_tab
      split: if_splits)

lemma fst_and_then: "set (fst (and_then r k)) \<subseteq> set (fst r) \<union> set (fst k)"
  by (auto simp: and_then_def split: outcome.splits)

lemma set_stdout_lines: "l \<in> set (stdout_lines es) \<longleftrightarrow> Stdout l \<in> set es"
  by (induction es rule: stdout_lines.induct) auto

lemma log_lines_tab:
  "l \<in> set (stdout_lines (fst (log_lines c i lgs))) \<Longrightarrow> \<exists>r. l = tab # r"
proof (induction lgs arbitrary: i)
  case Nil
  then show ?case by simp
next
  case (Cons lg lgs)
  from Cons.prems have "Stdout l \<in> set (fst (one_log c i lg)) \<union> set (fst (log_lines c (Suc i) lgs))"
    using fst_and_then [of "one_log c i lg" "log_lines c (Suc i) lgs"]
    by (auto simp: set_stdout_lines)
  then show ?case
    using one_log_tab [of l c i lg] Cons.IH [of "Suc i"] by (auto simp: set_stdout_lines)
qed

lemma logs_section_lines:
  "l \<in> set (stdout_lines (fst (logs_section c g rcpt))) \<Longrightarrow> l = ''Logs:'' @ [newline] \<or> (\<exists>r. l = tab # r)"
  by (auto simp: logs_section_def fst_emit dest: log_lines_tab split: if_splits option.splits)


lemma head_lines_prefix:
  assumes "l \<in> set (stdout_lines (from_lines c tx @ to_lines c tx rcpt @ field_lines c g tx rcpt))"
  shows "\<not> has_prefix ''Type:'' l \<and> \<not> has_prefix ''Result:'' l \<and> l \<noteq> ''Logs:'' @ [newline]"
  using assms
  by (auto simp: stdout_lines_append from_lines_def to_lines_def field_lines_def address_line_def
        has_prefix_def split: sum.splits option.splits if_splits)

lemma logs_section_prefix:
  assumes "l \<in> set (stdout_lines (fst (logs_section c g rcpt)))"
  shows "\<not> has_prefix ''Type:'' l \<and> \<not> has_prefix ''Result:'' l"
  using logs_section_lines [OF assms] by (auto simp: has_prefix_def)

lemma report_stdout:
  "stdout_lines (fst (report c g txHash tx pending)) =
     stdout_lines (fst (type_and_result c txHash tx pending))
     @ stdout_lines (from_lines c tx @ to_lines c tx (fetched_receipt c txHash pending)
                     @ field_lines c g tx (fetched_receipt c txHash pending))
     @ stdout_lines (fst (logs_section c g (fetched_receipt c txHash pending)))"
  by (simp add: report_def Let_def fst_emit stdout_lines_append type_and_result_def
        fetched_receipt_def)

lemma pick_kind: "(k \<in> {a, c}) = False \<Longrightarrow> (k \<in> {a, b}) = True \<Longrightarrow> k = b"
  by auto

lemma snd_report:
  "snd (report c g txHash tx pending) = snd (logs_section c g (fetched_receipt c txHash pending))"
  by (simp add: report_def Let_def snd_emit type_and_result_def fetched_receipt_def)

lemma filter_none: "(\<And>l. l \<in> set ls \<Longrightarrow> \<not> P l) \<Longrightarrow> filter P ls = []"
  by (induction ls) auto

lemma report_rest_no_Type:
  "filter (has_prefix ''Type:'')
     (stdout_lines (from_lines c tx @ to_lines c tx rcpt @ field_lines c g tx rcpt)
      @ stdout_lines (fst (logs_section c g rcpt))) = []"
  by (rule filter_none) (auto dest: head_lines_prefix logs_section_prefix)

lemma report_rest_no_Result:
  "filter (has_prefix ''Result:'')
     (stdout_lines (from_lines c tx @ to_lines c tx rcpt @ field_lines c g tx rcpt)
      @ stdout_lines (fst (logs_section c g rcpt))) = []"
  by (rule filter_none) (auto dest: head_lines_prefix logs_section_prefix)

text \<open>
  Claim C7: the report holds a Result line exactly when a receipt is present (the
  transaction is not pending and the node returned a receipt), and then exactly one: it
  reads "Failed" when the receipt's status is 0 and "Succeeded" otherwise.
\<close>

theorem report_result_line:
  "filter (has_prefix ''Result:'') (stdout_lines (fst (report c g txHash tx pending))) =
     (case fetched_receipt c txHash pending of
        None \<Rightarrow> []
      | Some rc \<Rightarrow> [''Result:'' @ [tab, tab, tab]
                     @ (if rc_Status rc = 0 then ''Failed'' else ''Succeeded'') @ [newline]])"
proof -
  have "filter (has_prefix ''Result:'') (stdout_lines (fst (type_and_result c txHash tx pending))) =
     (case fetched_receipt c txHash pending of
        None \<Rightarrow> []
      | Some rc \<Rightarrow> [''Result:'' @ [tab, tab, tab]
                     @ (if rc_Status rc = 0 then ''Failed'' else ''Succeeded'') @ [newline]])"
    by (simp add: type_and_result_def fetched_receipt_def has_prefix_def split: option.splits)
  then show ?thesis
    using report_rest_no_Result [of c tx "fetched_receipt c txHash pending" g]
    by (simp add: report_stdout)
qed

theorem report_result_line_witness:
  "filter (has_prefix ''Result:'')
     (stdout_lines (fst (report (demo_client (demo_tx 1) False (Some (demo_receipt 0 [])))
                           (demo_globals ''0x12'' False False []) [] (demo_tx 1) False)))
     = [''Result:'' @ [tab, tab, tab] @ ''Failed'' @ [newline]]
   \<and> filter (has_prefix ''Result:'')
     (stdout_lines (fst (report (demo_client (demo_tx 1) False (Some (demo_receipt 1 [])))
                           (demo_globals ''0x12'' False False []) [] (demo_tx 1) False)))
     = [''Result:'' @ [tab, tab, tab] @ ''Succeeded'' @ [newline]]
   \<and> filter (has_prefix ''Result:'')
     (stdout_lines (fst (report (demo_client (demo_tx 1) True None)
                           (demo_globals ''0x12'' False False []) [] (demo_tx 1) True)))
     = []"
  using report_result_line [of "demo_client (demo_tx 1) False (Some (demo_receipt 0 []))"
          "demo_globals ''0x12'' False False []" "[]" "demo_tx 1" False]
        report_result_line [of "demo_client (demo_tx 1) False (Some (demo_receipt 1 []))"
          "demo_globals ''0x12'' False False []" "[]" "demo_tx 1" False]
        report_result_line [of "demo_client (demo_tx 1) True None"
          "demo_globals ''0x12'' False False []" "[]" "demo_tx 1" True]
  by (simp add: fetched_receipt_def demo_client_def demo_receipt_def)

text \<open>
  Claim C8: the report starts with the Type line and holds no other; its text is one of
  the four kinds, a contract creation exactly when the recipient is absent and pending
  exactly when the pending flag is set.
\<close>

theorem report_type_line:
  "\<exists>kind rest.
      stdout_lines (fst (report c g txHash tx pending))
        = (''Type:'' @ [tab, tab, tab] @ kind @ [newline]) # rest
    \<and> filter (has_prefix ''Type:'') rest = []
    \<and> kind \<in> {''Pending contract creation'', ''Pending transaction'',
               ''Mined contract creation'', ''Mined transaction''}
    \<and> (kind \<in> {''Pending contract creation'', ''Mined contract creation''} \<longleftrightarrow> tx_to tx = None)
    \<and> (kind \<in> {''Pending contract creation'', ''Pending transaction''} \<longleftrightarrow> pending)"
proof -
  let ?rc = "fetched_receipt c txHash pending"
  let ?tail = "stdout_lines (from_lines c tx @ to_lines c tx ?rc @ field_lines c g tx ?rc)
               @ stdout_lines (fst (logs_section c g ?rc))"
  let ?kind = "if pending
               then (if tx_to tx = None then ''Pending contract creation'' else ''Pending transaction'')
               else (if tx_to tx = None then ''Mined contract creation'' else ''Mined transaction'')"
  let ?res = "case ?rc of None \<Rightarrow> [] | Some rc \<Rightarrow> [''Result:'' @ [tab, tab, tab]
                     @ (if rc_Status rc = 0 then ''Failed'' else ''Succeeded'') @ [newline]]"
  have t: "stdout_lines (fst (type_and_result c txHash tx pending))
             = (''Type:'' @ [tab, tab, tab] @ ?kind @ [newline]) # ?res"
    by (simp add: type_and_result_def fetched_receipt_def split: option.splits)
  have r: "filter (has_prefix ''Type:'') ?res = []"
    by (simp add: has_prefix_def split: option.splits)
  have f1: "stdout_lines (fst (report c g txHash tx pending))
          = (''Type:'' @ [tab, tab, tab] @ ?kind @ [newline]) # (?res @ ?tail)"
    using t by (simp add: report_stdout)
  have f2: "filter (has_prefix ''Type:'') (?res @ ?tail) = []"
    using r report_rest_no_Type [of c tx ?rc g] by simp
  have f3: "?kind \<in> {''Pending contract creation'', ''Pending transaction'',
               ''Mined contract creation'', ''Mined transaction''}"
    by simp
  have f4: "?kind \<in> {''Pending contract creation'', ''Mined contract creation''} \<longleftrightarrow> tx_to tx = None"
    by simp
  have f5: "?kind \<in> {''Pending contract creation'', ''Pending transaction''} \<longleftrightarrow> pending"
    by simp
  show ?thesis
    by (rule exI [of _ ?kind], rule exI [of _ "?res @ ?tail"]) (intro conjI f1 f2 f3 f4 f5)
qed

theorem report_type_line_witness:
  "\<exists>rest. stdout_lines (fst (report (demo_client (demo_tx 1) True None)
                           (demo_globals ''0x12'' False False []) [] (demo_tx 1) True))
     = (''Type:'' @ [tab, tab, tab] @ ''Pending transaction'' @ [newline]) # rest"
proof -
  obtain kind rest where
    l: "stdout_lines (fst (report (demo_client (demo_tx 1) True None)
                           (demo_globals ''0x12'' False False []) [] (demo_tx 1) True))
          = (''Type:'' @ [tab, tab, tab] @ kind @ [newline]) # rest"
    and "filter (has_prefix ''Type:'') rest = []"
    and "kind \<in> {''Pending contract creation'', ''Pending transaction'',
                  ''Mined contract creation'', ''Mined transaction''}"
    and c: "(kind \<in> {''Pending contract creation'', ''Mined contract creation''})
              = (tx_to (demo_tx 1) = None)"
    and p: "(kind \<in> {''Pending contract creation'', ''Pending transaction''}) = True"
    using report_type_line [of "demo_client (demo_tx 1) True None"
          "demo_globals ''0x12'' False False []" "[]" "demo_tx 1" True]
    by (elim exE conjE) (rule that, assumption+)
  have "(tx_to (demo_tx 1) = None) = False" by (simp add: demo_tx_def)
  with c have c': "(kind \<in> {''Pending contract creation'', ''Mined contract creation''}) = False"
    by (rule trans)
  have "kind = ''Pending transaction''"
    using c' p by (rule pick_kind)
  then show ?thesis
    using l by (intro exI [of _ rest]) (rule trans, assumption, rule arg_cong [where f = "\<lambda>k. (''Type:'' @ [tab, tab, tab] @ k @ [newline]) # rest"], assumption)
qed

text \<open>
  Claim C6: with \<open>verbose\<close> set and no receipt present, as for every pending
  transaction, the report panics on the nil receipt and prints no Logs section; so a
  report that completes was made without \<open>verbose\<close> or with a receipt.
\<close>

theorem verbose_report_needs_receipt:
  "(verbose g \<and> fetched_receipt c txHash pending = None \<longrightarrow>
      snd (report c g txHash tx pending) = Panic ''invalid memory address or nil pointer dereference''
      \<and> ''Logs:'' @ [newline] \<notin> set (stdout_lines (fst (report c g txHash tx pending))))
   \<and> (pending \<longrightarrow> fetched_receipt c txHash pending = None)
   \<and> (snd (report c g txHash tx pending) = Returned \<longrightarrow>
        \<not> verbose g \<or> fetched_receipt c txHash pending \<noteq> None)"
proof -
  have a: "''Logs:'' @ [newline] \<notin> set (stdout_lines (fst (type_and_result c txHash tx pending)))"
    by (simp add: type_and_result_def split: option.splits)
  have b: "''Logs:'' @ [newline] \<notin> set (stdout_lines (from_lines c tx @ to_lines c tx rcpt @ field_lines c g tx rcpt))" for rcpt
    using head_lines_prefix [of "''Logs:'' @ [newline]" c tx rcpt g] by blast
  show ?thesis
    using a b [of "fetched_receipt c txHash pending"]
    by (auto simp: snd_report report_stdout logs_section_def fetched_receipt_def
          split: option.splits if_splits)
qed

theorem verbose_report_needs_receipt_witness:
  "snd (report (demo_client (demo_tx 1) True None) (demo_globals ''0x12'' False True [])
          [] (demo_tx 1) True)
     = Panic ''invalid memory address or nil pointer dereference''
   \<and> ''Logs:'' @ [newline] \<notin> set (stdout_lines (fst
         (report (demo_client (demo_tx 1) True None) (demo_globals ''0x12'' False True [])
            [] (demo_tx 1) True)))
   \<and> snd (report (demo_client (demo_tx 1) False (Some (demo_receipt 1 [])))
            (demo_globals ''0x12'' False True []) [] (demo_tx 1) False) = Returned
   \<and> fetched_receipt (demo_client (demo_tx 1) False (Some (demo_receipt 1 []))) [] False \<noteq> None"
  using verbose_report_needs_receipt [of "demo_globals ''0x12'' False True []"
          "demo_client (demo_tx 1) True None" "[]" True "demo_tx 1"]
        verbose_report_needs_receipt [of "demo_globals ''0x12'' False True []"
          "demo_client (demo_tx 1) False (Some (demo_receipt 1 []))" "[]" False "demo_tx 1"]
  by (simp add: fetched_receipt_def demo_client_def demo_globals_def demo_receipt_def
        snd_report logs_section_def)

text \<open>How a run of the command reaches the report, and the outcome of a report with one log.\<close>

lemma info_run_report:
  assumes "transactionStr g \<noteq> []" and "length (transactionStr g) \<le> 66"
      and "\<not> quiet g" and "\<not> transactionInfoRaw g" and "\<not> transactionInfoJson g"
      and "TransactionByHash c (HexToHash c (transactionStr g)) = Inr (tx, pending)"
  shows "transactionInfo_Run c g =
           emit [RpcTransactionByHash (HexToHash c (transactionStr g))]
             (report c g (HexToHash c (transactionStr g)) tx pending)"
  using assms
  by (simp add: transactionInfo_Run_def locate_def locate_id_def Assert_def render_def Let_def)

lemma snd_and_then_Returned: "snd (and_then r ([], Returned)) = snd r"
  by (simp add: and_then_def split: outcome.splits)

lemma report_single_log_outcome:
  assumes "verbose g" and "fetched_receipt c txHash pending = Some rc" and "rc_Logs rc = [lg]"
      and "0 < slice_len (log_Data lg)"
  shows "snd (report c g txHash tx pending) = snd (data_lines 0 (log_Data lg))"
  using assms
  by (simp add: snd_report logs_section_def snd_emit snd_and_then_Returned one_log_def)

lemma info_run_48_byte_log:
  "snd (transactionInfo_Run
          (demo_client (demo_tx 1) False (Some (demo_receipt 1 [demo_log])))
          (demo_globals ''0x12'' False True []))
     = snd (data_lines 0 (log_Data demo_log))"
proof -
  let ?c = "demo_client (demo_tx 1) False (Some (demo_receipt 1 [demo_log]))"
  let ?g = "demo_globals ''0x12'' False True []"
  have "transactionInfo_Run ?c ?g =
           emit [RpcTransactionByHash (HexToHash ?c (transactionStr ?g))]
             (report ?c ?g (HexToHash ?c (transactionStr ?g)) (demo_tx 1) False)"
    by (rule info_run_report) (simp_all add: demo_globals_def demo_client_def)
  moreover have "snd (report ?c ?g (HexToHash ?c (transactionStr ?g)) (demo_tx 1) False)
                   = snd (data_lines 0 (log_Data demo_log))"
    by (rule report_single_log_outcome [where rc = "demo_receipt 1 [demo_log]"])
       (simp_all add: demo_globals_def demo_client_def fetched_receipt_def demo_receipt_def
          demo_log_def)
  ultimately show ?thesis by (simp add: snd_emit)
qed

text \<open>
  Claim C1 says that a log whose data length is not a multiple of 32 is rendered with a
  truncated final word and without error. The loop does reach the final partial word
  (its condition is \<open>j*32 < len(log.Data)\<close>), but the slice expression always asks for
  32 bytes: whenever the capacity of the data ends before the next multiple of 32, as it
  does when capacity and length coincide, the loop panics at the final word.
\<close>

theorem data_lines_partial_word_panics:
  assumes "slice_len d mod 32 \<noteq> 0"
      and "length (backing d) < (slice_len d div 32 + 1) * 32"
      and "j * 32 < slice_len d"
  shows "snd (data_lines j d) = Panic ''slice bounds out of range''"
  using assms
proof (induction j d rule: data_lines.induct)
  case (1 j d)
  show ?case
  proof (cases "(j + 1) * 32 \<le> length (backing d)")
    case False
    with "1.prems" show ?thesis
      by (simp add: data_lines.simps [of j d] slice_expr_def)
  next
    case True
    with "1.prems" have "j + 1 \<le> slice_len d div 32" by simp
    then have "(j + 1) * 32 \<le> slice_len d"
      by (metis div_mult_mod_eq le_add1 mult_le_mono1 order_trans)
    moreover have "(j + 1) * 32 \<noteq> slice_len d"
      using "1.prems"(1) by (metis mod_mult_self2_is_0)
    ultimately have lt: "(j + 1) * 32 < slice_len d" by simp
    obtain w where w: "slice_expr d (j * 32) ((j + 1) * 32) = Inr w"
      using True by (simp add: slice_expr_def)
    have "snd (data_lines (j + 1) d) = Panic ''slice bounds out of range''"
      using "1.IH" [OF _ w] "1.prems" lt by simp
    then show ?thesis
      using "1.prems" w by (simp add: data_lines.simps [of j d] snd_emit)
  qed
qed

theorem data_lines_partial_word_panics_witness:
  "slice_len (log_Data demo_log) = 48
   \<and> length (backing (log_Data demo_log)) = 48
   \<and> snd (data_lines 0 (log_Data demo_log)) = Panic ''slice bounds out of range''
   \<and> snd (transactionInfo_Run
            (demo_client (demo_tx 1) False (Some (demo_receipt 1 [demo_log])))
            (demo_globals ''0x12'' False True []))
       = Panic ''slice bounds out of range''"
  using data_lines_partial_word_panics [of "log_Data demo_log" 0] info_run_48_byte_log
  by (simp add: demo_log_def)

lemma TrimPrefix_with: "TrimPrefix (''0x'' @ h) ''0x'' = h"
  by (simp add: TrimPrefix_def)

lemma TrimPrefix_without: "\<not> has_prefix ''0x'' s \<Longrightarrow> TrimPrefix s ''0x'' = s"
  by (simp add: TrimPrefix_def has_prefix_def)

lemma fst_locate_raw:
  "\<exists>es. fst (locate_raw c g k) = HexDecode (TrimPrefix (transactionStr g) ''0x'') # es"
  by (simp add: locate_raw_def Let_def fst_emit)

lemma fst_locate_id:
  "\<exists>es. fst (locate_id c g k) = RpcTransactionByHash (HexToHash c (transactionStr g)) # es"
  by (simp add: locate_id_def Let_def fst_emit)

text \<open>
  Claim C2, amended: for a non-empty input the discriminator is the length of the input as
  given, prefix included. Up to 66 characters the input is looked up as a transaction
  identifier; beyond 66 it is hex-decoded (after removing a \<open>0x\<close> prefix) and
  canonical-decoded as a raw transaction. With the \<open>0x\<close> prefix this puts the boundary
  between 64 and 65 hex characters; without the prefix it lies between 66 and 67.
\<close>

theorem locate_discriminator:
  assumes "transactionStr g \<noteq> []"
  shows "(length (transactionStr g) \<le> 66 \<longrightarrow>
            locate c g k = locate_id c g k
            \<and> (\<exists>es. fst (locate c g k) = RpcTransactionByHash (HexToHash c (transactionStr g)) # es))
       \<and> (66 < length (transactionStr g) \<longrightarrow>
            locate c g k = locate_raw c g k
            \<and> (\<exists>es. fst (locate c g k) = HexDecode (TrimPrefix (transactionStr g) ''0x'') # es))
       \<and> (has_prefix ''0x'' (transactionStr g) \<longrightarrow>
            (66 < length (transactionStr g)
               \<longleftrightarrow> 64 < length (TrimPrefix (transactionStr g) ''0x'')))
       \<and> (\<not> has_prefix ''0x'' (transactionStr g) \<longrightarrow>
            (66 < length (transactionStr g)
               \<longleftrightarrow> 66 < length (TrimPrefix (transactionStr g) ''0x'')))"
proof -
  let ?s = "transactionStr g"
  have a: "locate c g k = locate_id c g k" if "length ?s \<le> 66"
    using assms that by (simp add: locate_def Assert_def)
  have b: "locate c g k = locate_raw c g k" if "66 < length ?s"
    using assms that by (simp add: locate_def Assert_def)
  have p: "(66 < length ?s) = (64 < length (TrimPrefix ?s ''0x''))" if h: "has_prefix ''0x'' ?s"
  proof -
    from h have t: "take (length ''0x'') ?s = ''0x''"
      unfolding has_prefix_def .
    then have "length (take (length ''0x'') ?s) = length ''0x''"
      by (rule arg_cong)
    then have "2 \<le> length ?s" by simp
    moreover have "TrimPrefix ?s ''0x'' = drop (length ''0x'') ?s"
      using t by (simp only: TrimPrefix_def refl if_True)
    then have "length (TrimPrefix ?s ''0x'') = length ?s - 2" by simp
    ultimately show ?thesis by arith
  qed
  have q: "(66 < length ?s) = (66 < length (TrimPrefix ?s ''0x''))" if "\<not> has_prefix ''0x'' ?s"
    using that by (simp add: TrimPrefix_without)
  have ia: "\<exists>es. fst (locate c g k) = RpcTransactionByHash (HexToHash c ?s) # es"
    if "length ?s \<le> 66"
    using a [OF that] fst_locate_id [of c g k] by simp
  have ib: "\<exists>es. fst (locate c g k) = HexDecode (TrimPrefix ?s ''0x'') # es"
    if "66 < length ?s"
    using b [OF that] fst_locate_raw [of c g k] by simp
  show ?thesis
    by (intro conjI impI a b p q ia ib)
qed





text \<open>
  Claim C2, as stated: an input of more than 64 hex characters is decoded as a raw
  transaction whether or not it carries the \<open>0x\<close> prefix. An input of 65 hex characters
  without the prefix is looked up as an identifier instead: the run consists of the lookup,
  and no decoding takes place.
\<close>

theorem locate_unprefixed_65_counterexample:
  "\<not> has_prefix ''0x'' ''aaaaaaaaaaaaaaaaaaaaaaaaaaaaaaaaaaaaaaaaaaaaaaaaaaaaaaaaaaaaaaaaa''
   \<and> length (TrimPrefix ''aaaaaaaaaaaaaaaaaaaaaaaaaaaaaaaaaaaaaaaaaaaaaaaaaaaaaaaaaaaaaaaaa'' ''0x'') = 65
   \<and> fst (transactionInfo_Run (demo_client (demo_tx 1) True None)
             (demo_globals ''aaaaaaaaaaaaaaaaaaaaaaaaaaaaaaaaaaaaaaaaaaaaaaaaaaaaaaaaaaaaaaaaa'' True False []))
       = [RpcTransactionByHash []]"
  by (simp add: has_prefix_def TrimPrefix_def transactionInfo_Run_def locate_def Assert_def
        locate_id_def render_def emit_def demo_client_def demo_globals_def)

theorem locate_discriminator_witness:
  "(\<exists>es. fst (locate (demo_client (demo_tx 1) True None) (demo_globals ''0xaaaaaaaaaaaaaaaaaaaaaaaaaaaaaaaaaaaaaaaaaaaaaaaaaaaaaaaaaaaaaaaa'' True False [])
               (render (demo_client (demo_tx 1) True None) (demo_globals ''0xaaaaaaaaaaaaaaaaaaaaaaaaaaaaaaaaaaaaaaaaaaaaaaaaaaaaaaaaaaaaaaaa'' True False [])))
          = RpcTransactionByHash [] # es)
   \<and> length (TrimPrefix ''0xaaaaaaaaaaaaaaaaaaaaaaaaaaaaaaaaaaaaaaaaaaaaaaaaaaaaaaaaaaaaaaaa'' ''0x'') = 64
   \<and> (\<exists>es. fst (locate (demo_client (demo_tx 1) True None) (demo_globals ''aaaaaaaaaaaaaaaaaaaaaaaaaaaaaaaaaaaaaaaaaaaaaaaaaaaaaaaaaaaaaaaaaaa'' True False [])
               (render (demo_client (demo_tx 1) True None) (demo_globals ''aaaaaaaaaaaaaaaaaaaaaaaaaaaaaaaaaaaaaaaaaaaaaaaaaaaaaaaaaaaaaaaaaaa'' True False [])))
          = HexDecode ''aaaaaaaaaaaaaaaaaaaaaaaaaaaaaaaaaaaaaaaaaaaaaaaaaaaaaaaaaaaaaaaaaaa'' # es)
   \<and> length (TrimPrefix ''aaaaaaaaaaaaaaaaaaaaaaaaaaaaaaaaaaaaaaaaaaaaaaaaaaaaaaaaaaaaaaaaaaa'' ''0x'') = 67"
  using locate_discriminator [of "demo_globals ''0xaaaaaaaaaaaaaaaaaaaaaaaaaaaaaaaaaaaaaaaaaaaaaaaaaaaaaaaaaaaaaaaa'' True False []"
          "demo_client (demo_tx 1) True None"
          "render (demo_client (demo_tx 1) True None) (demo_globals ''0xaaaaaaaaaaaaaaaaaaaaaaaaaaaaaaaaaaaaaaaaaaaaaaaaaaaaaaaaaaaaaaaa'' True False [])"]
        locate_discriminator [of "demo_globals ''aaaaaaaaaaaaaaaaaaaaaaaaaaaaaaaaaaaaaaaaaaaaaaaaaaaaaaaaaaaaaaaaaaa'' True False []"
          "demo_client (demo_tx 1) True None"
          "render (demo_client (demo_tx 1) True None) (demo_globals ''aaaaaaaaaaaaaaaaaaaaaaaaaaaaaaaaaaaaaaaaaaaaaaaaaaaaaaaaaaaaaaaaaaa'' True False [])"]
  by (auto simp: demo_globals_def demo_client_def has_prefix_def TrimPrefix_def)



end
